theory Spec2Isabelle
  imports Main "HOL-Library.Word"
begin

unbundle bit_operations_syntax

section \<open>QUIC packet header protector: data model\<close>

text \<open>
  The development follows \<^verbatim>\<open>iocore/net/quic/QUICPacketHeaderProtector.cc\<close>.
  A packet buffer (\<^verbatim>\<open>uint8_t *\<close> together with the extent of the memory behind it) is a
  list of bytes; the \<^verbatim>\<open>size_t\<close> length argument the methods receive is kept as a separate
  64-bit word, as in the source. The private methods \<^verbatim>\<open>_calc_sample_offset\<close> and
  \<^verbatim>\<open>_unprotect\<close> appear as \<open>calc_sample_offset\<close> and \<open>unprotect_priv\<close>, since an
  identifier cannot start with an underscore here.
\<close>

type_synonym byte = "8 word"
type_synonym size_t = "64 word"
type_synonym QUICVersion = "32 word"

text \<open>
  Modelled from the spec: the enumerations \<^verbatim>\<open>QUICPacketType\<close> and \<^verbatim>\<open>QUICKeyPhase\<close> are
  declared outside this file. The file itself names \<^verbatim>\<open>QUICPacketType::INITIAL\<close> and
  \<^verbatim>\<open>QUICPacketType::PROTECTED\<close>; the remaining long-header types (0-RTT, Handshake, Retry)
  and the key phases (Initial, 0-RTT, Handshake, 1-RTT with two rotating phases) are the
  ones the specification lists.
\<close>

datatype QUICPacketType = INITIAL | ZERO_RTT_PROTECTED | HANDSHAKE | RETRY | PROTECTED

datatype QUICKeyPhase = KP_INITIAL | KP_ZERO_RTT | KP_HANDSHAKE | KP_PHASE_0 | KP_PHASE_1

text \<open>\<^verbatim>\<open>KeyMaterial\<close>: the file reads the fields \<^verbatim>\<open>hp\<close> and \<^verbatim>\<open>hp_len\<close>.\<close>

record KeyMaterial =
  hp :: "byte list"
  hp_len :: size_t

text \<open>
  The handshake protocol object behind \<^verbatim>\<open>_hs_protocol\<close>. Each lookup returns a pointer
  that may be null; \<open>None\<close> is the null pointer. The cipher handle \<^verbatim>\<open>QUIC_EVP_CIPHER\<close> is
  opaque, hence a type parameter.
\<close>

record 'c QUICHandshakeProtocol =
  cipher_for_hp :: "QUICKeyPhase \<Rightarrow> 'c option"
  key_material_for_encryption :: "QUICKeyPhase \<Rightarrow> KeyMaterial option"
  key_material_for_decryption :: "QUICKeyPhase \<Rightarrow> KeyMaterial option"

text \<open>
  The header accessors (\<^verbatim>\<open>QUICInvariants\<close>, \<^verbatim>\<open>QUICPacketLongHeader\<close>,
  \<^verbatim>\<open>QUICPacketShortHeader\<close>) and the constant \<^verbatim>\<open>QUICConnectionId::SCID_LEN\<close> are defined
  elsewhere; they are parameters of the model. Every accessor but \<^verbatim>\<open>is_long_header\<close> writes
  its answer through a reference or pointer argument and returns a boolean that every call
  site of this file throws away, so an accessor is represented by the value found in its
  output argument after the call, as a function of the packet and the length passed.
  \<open>lh_length\<close> and \<open>lh_token_length\<close> yield the decoded value together with the width of
  the field that encodes it.
\<close>

record header_parser =
  is_long_header :: "byte list \<Rightarrow> bool"
  lh_version :: "byte list \<Rightarrow> size_t \<Rightarrow> QUICVersion"
  lh_key_phase :: "byte list \<Rightarrow> size_t \<Rightarrow> QUICKeyPhase"
  lh_type :: "byte list \<Rightarrow> size_t \<Rightarrow> QUICPacketType"
  lh_dcil :: "byte list \<Rightarrow> size_t \<Rightarrow> byte"
  lh_scil :: "byte list \<Rightarrow> size_t \<Rightarrow> byte"
  lh_length :: "byte list \<Rightarrow> size_t \<Rightarrow> size_t \<times> byte"
  lh_token_length :: "byte list \<Rightarrow> size_t \<Rightarrow> size_t \<times> byte"
  lh_packet_number_offset :: "byte list \<Rightarrow> size_t \<Rightarrow> byte"
  sh_key_phase :: "byte list \<Rightarrow> size_t \<Rightarrow> QUICKeyPhase"
  sh_packet_number_offset :: "byte list \<Rightarrow> size_t \<Rightarrow> int \<Rightarrow> byte"
  SCID_LEN :: int

text \<open>
  The two cryptographic primitives \<^verbatim>\<open>_encrypt_pn\<close> and \<^verbatim>\<open>_generate_mask\<close> are members
  whose bodies live in the cipher back end, not in this file; they are parameters too.
  \<open>encrypt_pn\<close> receives the previous contents of its two output arguments
  (\<^verbatim>\<open>protected_pn\<close>, \<^verbatim>\<open>protected_pn_len\<close>), the packet number and its length, the sample,
  the key and its length and the possibly null cipher, and returns its boolean with the new
  contents of the outputs. \<open>generate_mask\<close> receives the bytes from the sample pointer to
  the end of the buffer, the key and the cipher, and returns its boolean with the contents
  of the \<^verbatim>\<open>mask\<close> array.
\<close>

record 'c crypto =
  encrypt_pn :: "byte list \<Rightarrow> byte \<Rightarrow> byte list \<Rightarrow> byte \<Rightarrow> byte list \<Rightarrow> byte list \<Rightarrow> size_t
                 \<Rightarrow> 'c option \<Rightarrow> bool \<times> byte list \<times> byte"
  generate_mask :: "byte list \<Rightarrow> byte list \<Rightarrow> 'c \<Rightarrow> bool \<times> byte list"

text \<open>Every call of a cryptographic primitive is recorded, in order.\<close>

datatype crypto_op = ENCRYPT_PN | GENERATE_MASK

text \<open>
  An access outside the packet buffer or outside the mask is undefined behaviour in the
  source; the model stops with the offending index.
\<close>

datatype error = PacketOutOfBounds nat | MaskOutOfBounds nat

section \<open>The operations\<close>

subsection \<open>protect\<close>

text \<open>
  Result: the returned boolean, the contents of \<^verbatim>\<open>protected_pn\<close> and
  \<^verbatim>\<open>protected_pn_len\<close> afterwards, and the cryptographic calls made.
\<close>

definition protect ::
  "'c QUICHandshakeProtocol \<Rightarrow> 'c crypto \<Rightarrow> byte list \<Rightarrow> byte \<Rightarrow> byte list \<Rightarrow> byte \<Rightarrow> byte list
     \<Rightarrow> QUICKeyPhase \<Rightarrow> bool \<times> byte list \<times> byte \<times> crypto_op list" where
  "protect hs_protocol C protected_pn protected_pn_len unprotected_pn unprotected_pn_len sample phase =
     (let aead = cipher_for_hp hs_protocol phase in
      case key_material_for_encryption hs_protocol phase of
        None \<Rightarrow> (False, protected_pn, protected_pn_len, [])
      | Some km \<Rightarrow>
          (let (ret, protected_pn', protected_pn_len') =
                 encrypt_pn C protected_pn protected_pn_len unprotected_pn unprotected_pn_len
                   sample (hp km) (hp_len km) aead
           in (ret, protected_pn', protected_pn_len', [ENCRYPT_PN])))"

subsection \<open>Sample offset\<close>

text \<open>
  \<^verbatim>\<open>*sample_offset\<close> is an in/out argument: the function takes what the caller's variable
  holds and returns what it holds afterwards, next to the returned boolean. The sum
  \<^verbatim>\<open>6 + dcil + scil + length_len + 4\<close> is computed on \<^verbatim>\<open>int\<close> and narrowed to
  \<^verbatim>\<open>uint8_t\<close>; \<^verbatim>\<open>+= token_len + token_length_len\<close> is computed on \<^verbatim>\<open>size_t\<close> and
  narrowed; the returned expression is a \<^verbatim>\<open>size_t\<close> converted to \<^verbatim>\<open>bool\<close>. The
  short-header branch only queries the key phase.
\<close>

definition calc_sample_offset :: "header_parser \<Rightarrow> byte \<Rightarrow> byte list \<Rightarrow> size_t \<Rightarrow> bool \<times> byte" where
  "calc_sample_offset P sample_offset protected_packet protected_packet_len =
     (let pn_offset = (0 :: byte);
          aead_expansion = (16 :: byte);
          sample_offset' =
            (if is_long_header P protected_packet then
               (let dcil = lh_dcil P protected_packet protected_packet_len;
                    scil = lh_scil P protected_packet protected_packet_len;
                    (dummy, length_len) = lh_length P protected_packet protected_packet_len;
                    so = (word_of_int (6 + uint dcil + uint scil + uint length_len + 4) :: byte);
                    type = lh_type P protected_packet protected_packet_len
                in if type = INITIAL then
                     (let (token_len, token_length_len) =
                            lh_token_length P protected_packet protected_packet_len
                      in (ucast ((ucast so :: size_t) + (token_len + ucast token_length_len)) :: byte))
                   else so)
             else
               (let phase = sh_key_phase P protected_packet protected_packet_len
                in sample_offset))
      in (min ((ucast pn_offset :: size_t) + 4) (protected_packet_len - ucast aead_expansion) \<noteq> 0,
          sample_offset'))"

subsection \<open>Rewriting the header\<close>

text \<open>
  Modelled from the spec: \<^verbatim>\<open>QUICTypeUtil::read_QUICPacketNumberLen\<close> is not in this file.
  The specification gives the packet-number length as 1 to 4, encoded as length minus 1 in
  the low 2 bits of byte 0.
\<close>

definition read_QUICPacketNumberLen :: "byte list \<Rightarrow> byte" where
  "read_QUICPacketNumberLen buf = (buf ! 0 AND 0x03) + 1"

text \<open>
  The loop \<^verbatim>\<open>for (int i = 0; i < pn_length; ++i) protected_packet[pn_offset + i] ^= mask[1 + i]\<close>;
  the array \<^verbatim>\<open>mask\<close> is written \<open>msk\<close>.
\<close>

function pn_loop :: "byte list \<Rightarrow> byte list \<Rightarrow> nat \<Rightarrow> nat \<Rightarrow> nat \<Rightarrow> error + byte list" where
  "pn_loop protected_packet msk pn_offset pn_length i =
     (if i < pn_length then
        (if length msk \<le> 1 + i then Inl (MaskOutOfBounds (1 + i))
         else if length protected_packet \<le> pn_offset + i then Inl (PacketOutOfBounds (pn_offset + i))
         else pn_loop
                (protected_packet[pn_offset + i := protected_packet ! (pn_offset + i) XOR msk ! (1 + i)])
                msk pn_offset pn_length (i + 1))
      else Inr protected_packet)"
  by pat_completeness auto
termination
  by (relation "measure (\<lambda>(protected_packet, msk, pn_offset, pn_length, i). pn_length - i)") auto

declare pn_loop.simps [simp del]

definition unprotect_priv ::
  "header_parser \<Rightarrow> byte list \<Rightarrow> size_t \<Rightarrow> byte list \<Rightarrow> error + (bool \<times> byte list)" where
  "unprotect_priv P protected_packet protected_packet_len msk =
     (if protected_packet = [] then Inl (PacketOutOfBounds 0)
      else if msk = [] then Inl (MaskOutOfBounds 0)
      else
        (let (packet', pn_offset) =
               (if is_long_header P protected_packet then
                  (let p = protected_packet[0 := protected_packet ! 0 XOR (msk ! 0 AND 0x0f)]
                   in (p, lh_packet_number_offset P p protected_packet_len))
                else
                  (let p = protected_packet[0 := protected_packet ! 0 XOR (msk ! 0 AND 0x1f)]
                   in (p, sh_packet_number_offset P p protected_packet_len (SCID_LEN P))));
             pn_length = read_QUICPacketNumberLen packet'
         in case pn_loop packet' msk (unat pn_offset) (unat pn_length) 0 of
              Inl e \<Rightarrow> Inl e
            | Inr packet'' \<Rightarrow> Inr (True, packet'')))"

subsection \<open>unprotect\<close>

text \<open>
  \<open>sample_offset0\<close> is whatever the uninitialised local \<^verbatim>\<open>uint8_t sample_offset\<close> holds
  when \<^verbatim>\<open>_calc_sample_offset\<close> is called. Result: the returned boolean, the buffer
  afterwards and the cryptographic calls made. The boolean of \<^verbatim>\<open>_unprotect\<close> only guards a
  debug message.
\<close>

definition unprotect ::
  "header_parser \<Rightarrow> 'c QUICHandshakeProtocol \<Rightarrow> 'c crypto \<Rightarrow> byte \<Rightarrow> byte list \<Rightarrow> size_t
     \<Rightarrow> error + (bool \<times> byte list \<times> crypto_op list)" where
  "unprotect P hs_protocol C sample_offset0 protected_packet protected_packet_len =
     (if is_long_header P protected_packet
         \<and> lh_version P protected_packet protected_packet_len = 0x0
      then Inr (True, protected_packet, [])
      else
        (let (phase, type) =
               (if is_long_header P protected_packet
                then (lh_key_phase P protected_packet protected_packet_len,
                      lh_type P protected_packet protected_packet_len)
                else (sh_key_phase P protected_packet protected_packet_len, PROTECTED))
         in case cipher_for_hp hs_protocol phase of
              None \<Rightarrow> Inr (False, protected_packet, [])
            | Some aead \<Rightarrow>
               (case key_material_for_decryption hs_protocol phase of
                  None \<Rightarrow> Inr (False, protected_packet, [])
                | Some km \<Rightarrow>
                   (let (ok, sample_offset) =
                          calc_sample_offset P sample_offset0 protected_packet protected_packet_len
                    in if \<not> ok then Inr (False, protected_packet, [])
                       else
                         (let (generated, msk) =
                                generate_mask C (drop (unat sample_offset) protected_packet) (hp km) aead
                          in if \<not> generated then Inr (False, protected_packet, [GENERATE_MASK])
                             else
                               (case unprotect_priv P protected_packet protected_packet_len msk of
                                  Inl e \<Rightarrow> Inl e
                                | Inr (ret, packet') \<Rightarrow> Inr (True, packet', [GENERATE_MASK])))))))"

section \<open>Collaborators used at concrete packets\<close>

text \<open>
  A header parser that reports given field values: the version, the packet type, the key
  phase, the two connection-ID lengths, the token length with the width of its field, and
  the width of the length field. The header form is the top bit of byte 0, the
  packet-number offset of a long header is the sum of the widths in front of it, and the
  packet-number offset of a short header is one flags byte plus the connection-ID length
  it is given.
\<close>

definition layout_parser ::
  "QUICVersion \<Rightarrow> QUICPacketType \<Rightarrow> QUICKeyPhase \<Rightarrow> byte \<Rightarrow> byte \<Rightarrow> size_t \<Rightarrow> byte \<Rightarrow> byte
     \<Rightarrow> header_parser" where
  "layout_parser ver ty ph dcil scil tok tok_len len_len =
     \<lparr> is_long_header = (\<lambda>p. p \<noteq> [] \<and> p ! 0 AND 0x80 \<noteq> 0),
       lh_version = (\<lambda>p n. ver),
       lh_key_phase = (\<lambda>p n. ph),
       lh_type = (\<lambda>p n. ty),
       lh_dcil = (\<lambda>p n. dcil),
       lh_scil = (\<lambda>p n. scil),
       lh_length = (\<lambda>p n. (0, len_len)),
       lh_token_length = (\<lambda>p n. (tok, tok_len)),
       lh_packet_number_offset =
         (\<lambda>p n. 6 + dcil + scil + (if ty = INITIAL then ucast tok + tok_len else 0) + len_len),
       sh_key_phase = (\<lambda>p n. KP_PHASE_0),
       sh_packet_number_offset = (\<lambda>p n d. word_of_int (1 + d)),
       SCID_LEN = 8 \<rparr>"

text \<open>
  Handshake protocol states: nothing installed; cipher and keys installed for every phase;
  key material installed while the cipher lookup still answers null.
\<close>

definition test_km :: KeyMaterial where
  "test_km = \<lparr> hp = replicate 16 0x11, hp_len = 16 \<rparr>"

definition hs_no_keys :: "nat QUICHandshakeProtocol" where
  "hs_no_keys = \<lparr> cipher_for_hp = (\<lambda>ph. None),
                  key_material_for_encryption = (\<lambda>ph. None),
                  key_material_for_decryption = (\<lambda>ph. None) \<rparr>"

definition hs_all_keys :: "nat QUICHandshakeProtocol" where
  "hs_all_keys = \<lparr> cipher_for_hp = (\<lambda>ph. Some 0),
                   key_material_for_encryption = (\<lambda>ph. Some test_km),
                   key_material_for_decryption = (\<lambda>ph. Some test_km) \<rparr>"

definition hs_km_without_cipher :: "nat QUICHandshakeProtocol" where
  "hs_km_without_cipher = \<lparr> cipher_for_hp = (\<lambda>ph. None),
                            key_material_for_encryption = (\<lambda>ph. Some test_km),
                            key_material_for_decryption = (\<lambda>ph. Some test_km) \<rparr>"

text \<open>
  Modelled from the spec: the bodies of \<^verbatim>\<open>_encrypt_pn\<close> and \<^verbatim>\<open>_generate_mask\<close> are
  missing. The specification makes the mask a pure function of cipher, key and sample,
  and has the protect direction XOR each of the \<open>pn_len\<close> packet-number bytes with
  \<open>mask[1 + i]\<close>, writing the result into the caller-supplied output region. \<open>gen\<close> is
  the mask generator.
\<close>

definition spec_crypto :: "(byte list \<Rightarrow> byte list \<Rightarrow> 'c \<Rightarrow> bool \<times> byte list) \<Rightarrow> 'c crypto" where
  "spec_crypto gen =
     \<lparr> encrypt_pn =
         (\<lambda>protected_pn protected_pn_len unprotected_pn unprotected_pn_len sample key key_len aead.
            case aead of
              None \<Rightarrow> (False, protected_pn, protected_pn_len)
            | Some c \<Rightarrow>
                (let (generated, msk) = gen sample key c
                 in if \<not> generated then (False, protected_pn, protected_pn_len)
                    else (True,
                          map (\<lambda>i. unprotected_pn ! i XOR msk ! (1 + i)) [0..<unat unprotected_pn_len],
                          unprotected_pn_len))),
       generate_mask = gen \<rparr>"

text \<open>The mask of the specification's scenario, \<open>[0x5E, 0x02, ...]\<close>, whatever the sample.\<close>

definition scenario_mask :: "byte list" where
  "scenario_mask = [0x5E, 0x02] @ replicate 30 0"

definition scenario_crypto :: "nat crypto" where
  "scenario_crypto = spec_crypto (\<lambda>sample key c. (True, scenario_mask))"

text \<open>
  Modelled from the spec: the sender that assembles the packet is not in this file. protect
  "operates on a not-yet-placed-on-wire packet number" and returns the masked bytes; the
  on-wire buffer is the packet with those bytes put at the packet-number offset.
\<close>

definition place_on_wire :: "byte list \<Rightarrow> nat \<Rightarrow> byte list \<Rightarrow> byte list" where
  "place_on_wire packet pn_offset protected_pn =
     take pn_offset packet @ protected_pn @ drop (pn_offset + length protected_pn) packet"

text \<open>
  A 42-byte short-header packet: flags byte \<open>0x40\<close> (one-byte packet number), an 8-byte
  connection ID, the packet-number byte \<open>0x2A\<close>, and 32 bytes of payload and tag.
\<close>

definition short_header_packet :: "byte list" where
  "short_header_packet = [0x40, 1, 2, 3, 4, 5, 6, 7, 8, 0x2A] @ replicate 32 0x07"

section \<open>Geometry: the returned boolean\<close>

lemma min4_nonzero: "(min (4 :: size_t) x \<noteq> 0) = (x \<noteq> 0)"
  by (auto simp: min_def)

lemma calc_sample_offset_ret:
  "fst (calc_sample_offset P so pkt len)
     = (min ((ucast (0 :: byte) :: size_t) + 4) (len - ucast (16 :: byte)) \<noteq> 0)"
  by (simp add: calc_sample_offset_def Let_def split: prod.splits)

lemma size_t_sub16_wraps: "len < 16 \<Longrightarrow> unat (len - 16 :: size_t) = unat len + 2 ^ 64 - 16"
  by (simp add: unat_sub_if' word_less_nat_alt)

text \<open>
  C10. In \<open>calc_sample_offset\<close> the subtraction \<open>protected_packet_len - aead_expansion\<close>
  is unsigned 64-bit arithmetic: below 16 it wraps to \<open>len + 2^64 - 16\<close>. The returned
  boolean is \<open>min (pn_offset + 4) (protected_packet_len - 16)\<close> converted to bool with
  \<open>pn_offset\<close> still 0, and it is false exactly when the length is 16; every other
  length, all lengths below 16 included, reports success.
\<close>

theorem calc_sample_offset_fails_only_at_16:
  "fst (calc_sample_offset P so pkt len)
     = (min ((ucast (0 :: byte) :: size_t) + 4) (len - ucast (16 :: byte)) \<noteq> 0)
   \<and> fst (calc_sample_offset P so pkt len) = (len \<noteq> 16)
   \<and> (len < 16 \<longrightarrow> unat (len - 16) = unat len + 2 ^ 64 - 16
                     \<and> fst (calc_sample_offset P so pkt len))"
proof -
  have a: "fst (calc_sample_offset P so pkt len) = (len \<noteq> 16)"
    by (simp add: calc_sample_offset_ret min4_nonzero)
  have b: "len < 16 \<Longrightarrow> len \<noteq> 16" by auto
  show ?thesis
    using a b size_t_sub16_wraps [of len] calc_sample_offset_ret [of P so pkt len] by blast
qed

theorem calc_sample_offset_fails_only_at_16_witness:
  "(3 :: size_t) < 16 \<and> unat ((3 :: size_t) - 16) = 18446744073709551603
   \<and> fst (calc_sample_offset (layout_parser 1 HANDSHAKE KP_HANDSHAKE 0 0 0 0 1) 0 [0xE0, 0, 1] 3)"
  using calc_sample_offset_fails_only_at_16
          [of "layout_parser 1 HANDSHAKE KP_HANDSHAKE 0 0 0 0 1" 0 "[0xE0, 0, 1]" 3]
  by simp

text \<open>
  C1. The claim: \<open>calc_sample_offset\<close> enforces \<open>offset + sample_length \<le> L - 16\<close> by
  clamping, and rejects every buffer that cannot meet the bound. The code at a complete
  17-byte Handshake packet (no connection IDs, one-byte length field): the call succeeds
  and stores offset 11, although \<open>11 + 16\<close> exceeds both \<open>17 - 16\<close> and 17.
\<close>

theorem calc_sample_offset_accepts_truncated_buffer:
  "calc_sample_offset (layout_parser 1 HANDSHAKE KP_HANDSHAKE 0 0 0 0 1) 0
      ([0xE0, 0, 0, 0, 1, 0, 0x0A] @ replicate 10 0x07) 17 = (True, 11)
   \<and> length ([0xE0, 0, 0, 0, 1, 0, 0x0A] @ replicate 10 (0x07 :: byte)) = 17
   \<and> \<not> (11 + 16 \<le> (17 :: nat) - 16) \<and> \<not> (11 + 16 \<le> (17 :: nat))"
  by (simp add: calc_sample_offset_def layout_parser_def)

text \<open>
  C4. The claim: for a short header the sample offset \<open>1 + connection-ID length + 4\<close> is
  computed and stored. The code at a 41-byte short-header packet: the output argument
  keeps whatever it held before the call (0 stays 0, 77 stays 77); nothing is stored.
\<close>

theorem calc_sample_offset_short_header_leaves_output:
  "\<not> is_long_header (layout_parser 1 INITIAL KP_INITIAL 8 0 0 1 2) ([0x40] @ replicate 40 0x07)
   \<and> calc_sample_offset (layout_parser 1 INITIAL KP_INITIAL 8 0 0 1 2) 0
        ([0x40] @ replicate 40 0x07) 41 = (True, 0)
   \<and> calc_sample_offset (layout_parser 1 INITIAL KP_INITIAL 8 0 0 1 2) 77
        ([0x40] @ replicate 40 0x07) 41 = (True, 77)"
  by (simp add: calc_sample_offset_def layout_parser_def)

section \<open>Geometry: the long-header offset\<close>

lemma narrowed_header_sum:
  fixes a b c :: byte
  assumes "unat a + unat b + unat c < 246"
  shows "unat (word_of_int (6 + uint a + uint b + uint c + 4) :: byte) = 10 + unat a + unat b + unat c"
proof -
  have "6 + uint a + uint b + uint c + 4 = int (10 + unat a + unat b + unat c)"
    by simp
  then have "(word_of_int (6 + uint a + uint b + uint c + 4) :: byte) = of_nat (10 + unat a + unat b + unat c)"
    by (simp only: of_int_of_nat_eq)
  then show ?thesis using assms by (simp only: unat_of_nat) simp
qed

lemma narrowed_token_sum:
  fixes so tll :: byte and tok :: size_t
  assumes "unat so + unat tok + unat tll < 256"
  shows "unat (ucast ((ucast so :: size_t) + (tok + ucast tll)) :: byte) = unat so + unat tok + unat tll"
proof -
  have a: "unat (ucast so :: size_t) = unat so" "unat (ucast tll :: size_t) = unat tll"
    by (simp_all add: unsigned_ucast_eq take_bit_nat_eq_self_iff order_less_trans [OF unsigned_less])
  have b: "unat (tok + ucast tll) = unat tok + unat tll"
    using assms a by (simp add: unat_word_ariths)
  have c: "unat ((ucast so :: size_t) + (tok + ucast tll)) = unat so + unat tok + unat tll"
    using assms a b by (simp add: unat_word_ariths)
  show ?thesis using assms c by (simp add: unsigned_ucast_eq take_bit_nat_eq_self_iff)
qed


text \<open>
  C7, as the claim states it, fails twice. An Initial packet with DCID length 8, SCID
  length 0, an empty token and a 2-byte length field still carries the token-length
  field, one byte wide, and the code answers 21, not 20. With a 250-byte token behind a
  2-byte token-length field the sum 272 does not fit the \<open>uint8_t\<close> output, which holds 16.
\<close>

theorem calc_sample_offset_initial_counterexample:
  "snd (calc_sample_offset (layout_parser 1 INITIAL KP_INITIAL 8 0 0 1 2) 0
      ([0xC0, 0, 0, 0, 1] @ replicate 60 0x07) 65) = 21
   \<and> snd (calc_sample_offset (layout_parser 1 INITIAL KP_INITIAL 8 0 250 2 2) 0
      ([0xC0, 0, 0, 0, 1] @ replicate 400 0x07) 405) = 16"
  by (simp add: calc_sample_offset_def layout_parser_def)

text \<open>
  C7, amended. For a long header the stored sample offset is
  \<open>4 + 1 + dcid_len + 1 + scid_len + length_field_width + 4\<close>, plus
  \<open>token_length_field_width + token_len\<close> for an Initial packet, whenever that sum is
  below 256. For the Initial packet of the scenario this is 20 plus the width of the
  token-length field: 21 with the one-byte field of an empty token.
\<close>

theorem calc_sample_offset_long_header:
  assumes "is_long_header P pkt"
    and "lh_length P pkt len = (payload_len, length_len)"
    and "lh_token_length P pkt len = (token_len, token_length_len)"
    and "expected = 4 + 1 + unat (lh_dcil P pkt len) + 1 + unat (lh_scil P pkt len) + unat length_len + 4
                 + (if lh_type P pkt len = INITIAL then unat token_length_len + unat token_len else 0)"
    and "expected < 256"
  shows "unat (snd (calc_sample_offset P so pkt len)) = expected"
proof -
  let ?d = "lh_dcil P pkt len" and ?s = "lh_scil P pkt len"
  let ?so = "word_of_int (6 + uint ?d + uint ?s + uint length_len + 4) :: byte"
  have lt: "unat ?d + unat ?s + unat length_len < 246"
    using assms(4,5) by (simp split: if_splits)
  have u: "unat ?so = 10 + unat ?d + unat ?s + unat length_len"
    by (rule narrowed_header_sum [OF lt])
  show ?thesis
  proof (cases "lh_type P pkt len = INITIAL")
    case False
    have "snd (calc_sample_offset P so pkt len) = ?so"
      using assms(1,2) False by (simp add: calc_sample_offset_def Let_def)
    then show ?thesis using assms(4) False u by simp
  next
    case True
    have t: "expected = unat ?so + unat token_len + unat token_length_len"
      using assms(4) True u by simp
    have "snd (calc_sample_offset P so pkt len)
            = ucast ((ucast ?so :: size_t) + (token_len + ucast token_length_len))"
      using assms(1,2,3) True by (simp add: calc_sample_offset_def Let_def)
    then show ?thesis
      using narrowed_token_sum [of ?so token_len token_length_len] assms(5) t by simp
  qed
qed

theorem calc_sample_offset_long_header_witness:
  "is_long_header (layout_parser 1 INITIAL KP_INITIAL 8 0 0 1 2) ([0xC0, 0, 0, 0, 1] @ replicate 60 0x07)
   \<and> lh_length (layout_parser 1 INITIAL KP_INITIAL 8 0 0 1 2) ([0xC0, 0, 0, 0, 1] @ replicate 60 0x07) 65 = (0, 2)
   \<and> lh_token_length (layout_parser 1 INITIAL KP_INITIAL 8 0 0 1 2) ([0xC0, 0, 0, 0, 1] @ replicate 60 0x07) 65 = (0, 1)
   \<and> lh_type (layout_parser 1 INITIAL KP_INITIAL 8 0 0 1 2) ([0xC0, 0, 0, 0, 1] @ replicate 60 0x07) 65 = INITIAL
   \<and> (21 :: nat) = 4 + 1 + 8 + 1 + 0 + 2 + 4 + (1 + 0) \<and> (21 :: nat) < 256
   \<and> unat (snd (calc_sample_offset (layout_parser 1 INITIAL KP_INITIAL 8 0 0 1 2) 99
                  ([0xC0, 0, 0, 0, 1] @ replicate 60 0x07) 65)) = 21"
  using calc_sample_offset_long_header
          [of "layout_parser 1 INITIAL KP_INITIAL 8 0 0 1 2" "[0xC0, 0, 0, 0, 1] @ replicate 60 0x07"
              65 0 2 0 1 21 99]
  by (simp add: layout_parser_def)

section \<open>Key and cipher lookup\<close>

text \<open>
  C3. The claim: when \<open>cipher_for_hp\<close> answers null, protect fails at once and makes no
  cryptographic call, as unprotect does. The code with key material installed and a null
  cipher, whatever the cipher back end \<open>C\<close>: protect tests the key material only, calls
  \<open>encrypt_pn\<close> with the null cipher and returns what that call answers.
\<close>

theorem protect_null_cipher_still_encrypts:
  "cipher_for_hp hs_km_without_cipher KP_HANDSHAKE = None
   \<and> fst (protect hs_km_without_cipher C [] 0 [0x2A] 1 (replicate 16 0x07) KP_HANDSHAKE)
       = fst (encrypt_pn C [] 0 [0x2A] 1 (replicate 16 0x07) (hp test_km) (hp_len test_km) None)
   \<and> snd (snd (snd (protect hs_km_without_cipher C [] 0 [0x2A] 1 (replicate 16 0x07) KP_HANDSHAKE)))
       = [ENCRYPT_PN]"
  by (simp add: protect_def hs_km_without_cipher_def split: prod.splits)

text \<open>
  C5. Version-negotiation passthrough: for a long-header packet whose version reads 0,
  unprotect returns success, the buffer is unchanged and no cryptographic call is made,
  whatever the key state.
\<close>

theorem unprotect_version_negotiation_passthrough:
  "is_long_header P pkt \<Longrightarrow> lh_version P pkt len = 0
   \<Longrightarrow> unprotect P hs C so0 pkt len = Inr (True, pkt, [])"
  by (simp add: unprotect_def)

theorem unprotect_version_negotiation_passthrough_witness:
  "is_long_header (layout_parser 0 INITIAL KP_INITIAL 8 0 0 1 2) ([0x80, 0, 0, 0, 0] @ replicate 19 0x07)
   \<and> lh_version (layout_parser 0 INITIAL KP_INITIAL 8 0 0 1 2) ([0x80, 0, 0, 0, 0] @ replicate 19 0x07) 24 = 0
   \<and> unprotect (layout_parser 0 INITIAL KP_INITIAL 8 0 0 1 2) hs_all_keys scenario_crypto 0 ([0x80, 0, 0, 0, 0] @ replicate 19 0x07) 24
      = Inr (True, ([0x80, 0, 0, 0, 0] @ replicate 19 0x07), [])"
  using unprotect_version_negotiation_passthrough
          [of "layout_parser 0 INITIAL KP_INITIAL 8 0 0 1 2" "[0x80, 0, 0, 0, 0] @ replicate 19 0x07" 24 hs_all_keys scenario_crypto 0]
  by (simp add: layout_parser_def)

text \<open>
  C6, as the claim states it, fails at a version-negotiation packet: its key phase has
  neither cipher nor key material installed, and unprotect returns success, because the
  version test comes before the key lookup.
\<close>

theorem unprotect_missing_keys_counterexample:
  "lh_key_phase (layout_parser 0 INITIAL KP_INITIAL 8 0 0 1 2) ([0x80, 0, 0, 0, 0] @ replicate 19 0x07) 24 = KP_INITIAL
   \<and> cipher_for_hp hs_no_keys KP_INITIAL = None
   \<and> key_material_for_decryption hs_no_keys KP_INITIAL = None
   \<and> unprotect (layout_parser 0 INITIAL KP_INITIAL 8 0 0 1 2) hs_no_keys scenario_crypto 0 ([0x80, 0, 0, 0, 0] @ replicate 19 0x07) 24
      = Inr (True, ([0x80, 0, 0, 0, 0] @ replicate 19 0x07), [])"
  by (simp add: unprotect_def layout_parser_def hs_no_keys_def)

text \<open>
  C6, amended. For every packet that is not a version-negotiation packet (not a long
  header whose version reads 0) and whose key phase has no decryption cipher or no
  decryption key material installed, unprotect returns failure, the buffer is unchanged
  and no cryptographic call is made.
\<close>

theorem unprotect_missing_keys_fails:
  "\<not> (is_long_header P pkt \<and> lh_version P pkt len = 0)
   \<Longrightarrow> phase = (if is_long_header P pkt then lh_key_phase P pkt len else sh_key_phase P pkt len)
   \<Longrightarrow> cipher_for_hp hs phase = None \<or> key_material_for_decryption hs phase = None
   \<Longrightarrow> unprotect P hs C so0 pkt len = Inr (False, pkt, [])"
  by (auto simp: unprotect_def split: option.splits)

theorem unprotect_missing_keys_fails_witness:
  "\<not> (is_long_header (layout_parser 1 INITIAL KP_INITIAL 8 0 0 1 2) ([0x40] @ replicate 40 0x07)
        \<and> lh_version (layout_parser 1 INITIAL KP_INITIAL 8 0 0 1 2) ([0x40] @ replicate 40 0x07) 41 = 0)
   \<and> (cipher_for_hp hs_no_keys KP_PHASE_0 = None
        \<or> key_material_for_decryption hs_no_keys KP_PHASE_0 = None)
   \<and> unprotect (layout_parser 1 INITIAL KP_INITIAL 8 0 0 1 2) hs_no_keys scenario_crypto 0
        ([0x40] @ replicate 40 0x07) 41
      = Inr (False, [0x40] @ replicate 40 0x07, [])"
  using unprotect_missing_keys_fails
          [of "layout_parser 1 INITIAL KP_INITIAL 8 0 0 1 2" "[0x40] @ replicate 40 0x07" 41 KP_PHASE_0
              hs_no_keys scenario_crypto 0]
  by (simp add: layout_parser_def hs_no_keys_def)

section \<open>The rewriter\<close>

lemma pn_loop_in_bounds:
  "off + n \<le> length pkt \<Longrightarrow> n < length msk \<Longrightarrow> i \<le> n \<Longrightarrow>
   \<exists>out. pn_loop pkt msk off n i = Inr out \<and> length out = length pkt
      \<and> (\<forall>j<length pkt. out ! j = (if off + i \<le> j \<and> j < off + n
                                      then pkt ! j XOR msk ! (1 + (j - off)) else pkt ! j))"
proof (induction pkt msk off n i rule: pn_loop.induct)
  case (1 pkt msk off n i)
  show ?case
  proof (cases "i < n")
    case False
    then have "pn_loop pkt msk off n i = Inr pkt" by (simp add: pn_loop.simps)
    moreover have "i = n" using False "1.prems"(3) by simp
    ultimately show ?thesis by auto
  next
    case True
    let ?p = "pkt[off + i := pkt ! (off + i) XOR msk ! (1 + i)]"
    have m: "\<not> length msk \<le> 1 + i" using True "1.prems"(2) by simp
    have b: "\<not> length pkt \<le> off + i" using True "1.prems"(1) by simp
    have step: "pn_loop pkt msk off n i = pn_loop ?p msk off n (i + 1)"
      using True m b by (subst pn_loop.simps) simp
    from "1.IH" [OF True m b] "1.prems" True
    obtain out where o: "pn_loop ?p msk off n (i + 1) = Inr out" "length out = length pkt"
      "\<forall>j<length pkt. out ! j = (if off + (i + 1) \<le> j \<and> j < off + n
                                      then ?p ! j XOR msk ! (1 + (j - off)) else ?p ! j)"
      by auto
    have "\<forall>j<length pkt. out ! j = (if off + i \<le> j \<and> j < off + n
                                      then pkt ! j XOR msk ! (1 + (j - off)) else pkt ! j)"
    proof (intro allI impI)
      fix j assume j: "j < length pkt"
      show "out ! j = (if off + i \<le> j \<and> j < off + n
                         then pkt ! j XOR msk ! (1 + (j - off)) else pkt ! j)"
      proof (cases "j = off + i")
        case True
        then show ?thesis using o(3) j \<open>i < n\<close> by simp
      next
        case False
        then show ?thesis using o(3) j by auto
      qed
    qed
    then show ?thesis using step o(1,2) by simp
  qed
qed

lemma pn_len_range: "1 \<le> unat ((b AND 0x03) + 1 :: byte) \<and> unat ((b AND 0x03) + 1 :: byte) \<le> 4"
proof -
  have "b AND 3 \<le> 3" by (rule word_and_le1)
  then have "unat (b AND 3) \<le> 3" by (simp add: word_le_nat_alt)
  then have "unat ((b AND 3) + 1) = unat (b AND 3) + 1"
    by (simp add: unat_word_ariths)
  then show ?thesis using \<open>unat (b AND 3) \<le> 3\<close> by simp
qed

lemma replicate_update_same: "(replicate n x)[i := x] = replicate n x"
  by (cases "i < n") (simp_all add: list_update_same_conv list_update_beyond)

text \<open>
  C8, as the claim states it, fails at a call that reaches the rewriter with a buffer too
  short for the packet number. A 10-byte short-header packet with keys installed passes
  the geometry check; byte 0 is unmasked to \<open>0x5E\<close>, which announces a 3-byte packet
  number at offset 9, and the rewriter leaves the buffer at index 10 instead of XORing
  three packet-number bytes.
\<close>

theorem unprotect_priv_out_of_bounds_counterexample:
  "unprotect (layout_parser 1 INITIAL KP_INITIAL 8 0 0 1 2) hs_all_keys scenario_crypto 0
       [0x40, 1, 2, 3, 4, 5, 6, 7, 8, 0x2A] 10 = Inl (PacketOutOfBounds 10)
   \<and> unprotect_priv (layout_parser 1 INITIAL KP_INITIAL 8 0 0 1 2)
       [0x40, 1, 2, 3, 4, 5, 6, 7, 8, 0x2A] 10 scenario_mask = Inl (PacketOutOfBounds 10)
   \<and> unat (read_QUICPacketNumberLen [0x5E, 1, 2, 3, 4, 5, 6, 7, 8, 0x2A]) = 3
   \<and> length [0x40, 1, 2, 3, 4, 5, 6, 7, 8, 0x2A :: byte] = 10 \<and> \<not> (9 + 3 \<le> (10 :: nat))"
  by (simp add: unprotect_def unprotect_priv_def calc_sample_offset_def layout_parser_def
        hs_all_keys_def test_km_def scenario_crypto_def spec_crypto_def scenario_mask_def
        read_QUICPacketNumberLen_def pn_loop.simps)

text \<open>
  C8, amended. For every call of the rewriter whose \<open>pn_len\<close> packet-number bytes lie
  inside the buffer (\<open>pn_offset + pn_len\<close> at most the buffer length) and whose mask holds
  more than \<open>pn_len\<close> bytes: byte 0 is XORed with \<open>mask[0] AND 0x0f\<close> for a long header
  and with \<open>mask[0] AND 0x1f\<close> for a short header; \<open>pn_len\<close>, between 1 and 4, is the low 2
  bits of the unmasked byte 0 plus 1; the packet-number offset is computed on the unmasked
  buffer; exactly the \<open>pn_len\<close> bytes from that offset on are then XORed with
  \<open>mask[1 + i]\<close>; every other byte keeps the value it had after the first step, and the
  call returns true. When the packet number lies behind byte 0, byte 0 ends as the
  unmasked flags byte and every byte other than byte 0 and the packet-number bytes is
  unchanged.
\<close>

theorem unprotect_priv_rewrites_flags_and_pn:
  assumes "b0 = pkt ! 0 XOR (msk ! 0 AND (if is_long_header P pkt then 0x0f else 0x1f))"
    and "off = unat (if is_long_header P pkt
                     then lh_packet_number_offset P (pkt[0 := b0]) len
                     else sh_packet_number_offset P (pkt[0 := b0]) len (SCID_LEN P))"
    and "pn_len = unat ((b0 AND 0x03) + 1)"
    and "off + pn_len \<le> length pkt" and "pn_len < length msk"
  shows "\<exists>out. unprotect_priv P pkt len msk = Inr (True, out)
           \<and> length out = length pkt
           \<and> pn_len = unat (read_QUICPacketNumberLen (pkt[0 := b0])) \<and> 1 \<le> pn_len \<and> pn_len \<le> 4
           \<and> (\<forall>i<pn_len. out ! (off + i) = (pkt[0 := b0]) ! (off + i) XOR msk ! (1 + i))
           \<and> (\<forall>j<length pkt. \<not> (off \<le> j \<and> j < off + pn_len) \<longrightarrow> out ! j = (pkt[0 := b0]) ! j)
           \<and> (0 < off \<longrightarrow>
                 out ! 0 = b0
                 \<and> pn_len = unat (read_QUICPacketNumberLen out)
                 \<and> (\<forall>i<pn_len. out ! (off + i) = pkt ! (off + i) XOR msk ! (1 + i))
                 \<and> (\<forall>j<length pkt. j \<noteq> 0 \<and> \<not> (off \<le> j \<and> j < off + pn_len)
                        \<longrightarrow> out ! j = pkt ! j))"
proof -
  let ?p = "pkt[0 := b0]"
  have rng: "1 \<le> pn_len \<and> pn_len \<le> 4" using pn_len_range [of b0] assms(3) by simp
  have ne: "pkt \<noteq> []" using rng assms(4) by auto
  have mne: "msk \<noteq> []" using assms(5) by auto
  have p0: "?p ! 0 = b0" using ne by simp
  have rd: "unat (read_QUICPacketNumberLen ?p) = pn_len"
    using p0 assms(3) by (simp add: read_QUICPacketNumberLen_def)
  have run: "unprotect_priv P pkt len msk
               = (case pn_loop ?p msk off pn_len 0 of Inl e \<Rightarrow> Inl e | Inr q \<Rightarrow> Inr (True, q))"
  proof (cases "is_long_header P pkt")
    case True
    have b: "pkt ! 0 XOR (msk ! 0 AND 0x0f) = b0" using assms(1) True by simp
    have f: "unat (lh_packet_number_offset P ?p len) = off" using assms(2) True by simp
    show ?thesis using ne mne True by (simp add: unprotect_priv_def Let_def b f rd)
  next
    case False
    have b: "pkt ! 0 XOR (msk ! 0 AND 0x1f) = b0" using assms(1) False by simp
    have f: "unat (sh_packet_number_offset P ?p len (SCID_LEN P)) = off"
      using assms(2) False by simp
    show ?thesis using ne mne False by (simp add: unprotect_priv_def Let_def b f rd)
  qed
  from pn_loop_in_bounds [of off pn_len ?p msk 0] assms(4,5)
  obtain out where o: "pn_loop ?p msk off pn_len 0 = Inr out" "length out = length pkt"
    "\<forall>j<length pkt. out ! j = (if off + 0 \<le> j \<and> j < off + pn_len
                                 then ?p ! j XOR msk ! (1 + (j - off)) else ?p ! j)"
    by auto
  have r: "unprotect_priv P pkt len msk = Inr (True, out)" using run o(1) by simp
  have len0: "0 < length pkt" using ne by simp
  have pn1: "\<forall>i<pn_len. out ! (off + i) = ?p ! (off + i) XOR msk ! (1 + i)"
    using o(3) assms(4) by simp
  have rest1: "\<forall>j<length pkt. \<not> (off \<le> j \<and> j < off + pn_len) \<longrightarrow> out ! j = ?p ! j"
    using o(3) by auto
  have behind: "0 < off \<longrightarrow>
                 out ! 0 = b0
                 \<and> pn_len = unat (read_QUICPacketNumberLen out)
                 \<and> (\<forall>i<pn_len. out ! (off + i) = pkt ! (off + i) XOR msk ! (1 + i))
                 \<and> (\<forall>j<length pkt. j \<noteq> 0 \<and> \<not> (off \<le> j \<and> j < off + pn_len)
                        \<longrightarrow> out ! j = pkt ! j)"
  proof
    assume pos: "0 < off"
    have o0: "out ! 0 = b0" using o(3) len0 pos p0 by simp
    have rd': "pn_len = unat (read_QUICPacketNumberLen out)"
      using o0 assms(3) by (simp add: read_QUICPacketNumberLen_def)
    have pn: "\<forall>i<pn_len. out ! (off + i) = pkt ! (off + i) XOR msk ! (1 + i)"
      using pn1 pos by simp
    have rest: "\<forall>j<length pkt. j \<noteq> 0 \<and> \<not> (off \<le> j \<and> j < off + pn_len) \<longrightarrow> out ! j = pkt ! j"
      using rest1 by auto
    show "out ! 0 = b0
          \<and> pn_len = unat (read_QUICPacketNumberLen out)
          \<and> (\<forall>i<pn_len. out ! (off + i) = pkt ! (off + i) XOR msk ! (1 + i))
          \<and> (\<forall>j<length pkt. j \<noteq> 0 \<and> \<not> (off \<le> j \<and> j < off + pn_len)
                 \<longrightarrow> out ! j = pkt ! j)"
      using o0 rd' pn rest by blast
  qed
  show ?thesis using r o(2) rd [symmetric] rng pn1 rest1 behind by blast
qed

theorem unprotect_priv_rewrites_flags_and_pn_witness:
  "\<not> is_long_header (layout_parser 1 INITIAL KP_INITIAL 8 0 0 1 2) short_header_packet
   \<and> short_header_packet ! 0 XOR (scenario_mask ! 0 AND 0x1f) = 0x5E
   \<and> unat (sh_packet_number_offset (layout_parser 1 INITIAL KP_INITIAL 8 0 0 1 2)
              (short_header_packet[0 := 0x5E]) 42 8) = 9
   \<and> unat ((0x5E AND 0x03) + 1 :: byte) = 3
   \<and> (0 :: nat) < 9 \<and> 9 + 3 \<le> length short_header_packet \<and> 3 < length scenario_mask
   \<and> (\<exists>out. unprotect_priv (layout_parser 1 INITIAL KP_INITIAL 8 0 0 1 2) short_header_packet 42
                scenario_mask = Inr (True, out)
           \<and> length out = length short_header_packet
           \<and> out ! 0 = 0x5E
           \<and> 3 = unat (read_QUICPacketNumberLen out)
           \<and> (\<forall>i<3. out ! (9 + i) = short_header_packet ! (9 + i) XOR scenario_mask ! (1 + i))
           \<and> (\<forall>j<length short_header_packet. j \<noteq> 0 \<and> \<not> (9 \<le> j \<and> j < 9 + 3)
                  \<longrightarrow> out ! j = short_header_packet ! j))
   \<and> unprotect_priv (layout_parser 1 INITIAL KP_INITIAL 8 0 0 1 2) short_header_packet 42
         scenario_mask
       = Inr (True, [0x5E, 1, 2, 3, 4, 5, 6, 7, 8, 0x28] @ replicate 32 0x07)"
proof -
  let ?P = "layout_parser 1 INITIAL KP_INITIAL 8 0 0 1 2"
  have s: "\<not> is_long_header ?P short_header_packet"
    by (simp add: short_header_packet_def layout_parser_def)
  have x: "short_header_packet ! 0 XOR (scenario_mask ! 0 AND 0x1f) = 0x5E"
    by (simp add: short_header_packet_def scenario_mask_def)
  have f: "unat (sh_packet_number_offset ?P (short_header_packet[0 := 0x5E]) 42 8) = 9"
    by (simp add: layout_parser_def)
  have c: "SCID_LEN ?P = 8" by (simp add: layout_parser_def)
  have h2: "0x5E = short_header_packet ! 0
                     XOR (scenario_mask ! 0 AND (if is_long_header ?P short_header_packet then 0x0f else 0x1f))"
    using s x by simp
  have h3: "9 = unat (if is_long_header ?P short_header_packet
                      then lh_packet_number_offset ?P (short_header_packet[0 := 0x5E]) 42
                      else sh_packet_number_offset ?P (short_header_packet[0 := 0x5E]) 42 (SCID_LEN ?P))"
    using s f c by simp
  have h4: "3 = unat ((0x5E AND 0x03) + 1 :: byte)" by simp
  have h5: "(0 :: nat) < 9" by simp
  have h6: "9 + 3 \<le> length short_header_packet" by (simp add: short_header_packet_def)
  have h7: "3 < length scenario_mask" by (simp add: scenario_mask_def)
  have e: "unprotect_priv ?P short_header_packet 42 scenario_mask
             = Inr (True, [0x5E, 1, 2, 3, 4, 5, 6, 7, 8, 0x28] @ replicate 32 0x07)"
    by (simp add: unprotect_priv_def layout_parser_def short_header_packet_def scenario_mask_def
          read_QUICPacketNumberLen_def pn_loop.simps replicate_update_same)
  have w: "\<exists>out. unprotect_priv ?P short_header_packet 42 scenario_mask = Inr (True, out)
           \<and> length out = length short_header_packet
           \<and> out ! 0 = 0x5E
           \<and> 3 = unat (read_QUICPacketNumberLen out)
           \<and> (\<forall>i<3. out ! (9 + i) = short_header_packet ! (9 + i) XOR scenario_mask ! (1 + i))
           \<and> (\<forall>j<length short_header_packet. j \<noteq> 0 \<and> \<not> (9 \<le> j \<and> j < 9 + 3)
                  \<longrightarrow> out ! j = short_header_packet ! j)"
    using unprotect_priv_rewrites_flags_and_pn [OF h2 h3 h4 h6 h7] h5 by blast
  show ?thesis using s x f h4 h5 h6 h7 w e by (intro conjI) simp_all
qed


text \<open>
  C2. The claim: unprotect never touches an index at or beyond the buffer length, because
  \<open>pn_offset + pn_len\<close> is validated before the write loop. The code at an 8-byte
  Handshake packet with keys installed, whose single packet-number byte is the last byte
  (offset 7): the geometry check passes (\<open>8 - 16\<close> wraps), the unmasked byte 0 announces a
  3-byte packet number, and the loop reaches index 8 with no check in between.
\<close>

theorem unprotect_writes_past_buffer:
  "unprotect (layout_parser 1 HANDSHAKE KP_HANDSHAKE 0 0 0 0 1) hs_all_keys scenario_crypto 0
     [0xE0, 0, 0, 0, 1, 0, 0x01, 0x2A] 8 = Inl (PacketOutOfBounds 8)
   \<and> length [0xE0, 0, 0, 0, 1, 0, 0x01, 0x2A :: byte] = 8"
  by (simp add: unprotect_def unprotect_priv_def calc_sample_offset_def layout_parser_def
        hs_all_keys_def test_km_def scenario_crypto_def spec_crypto_def scenario_mask_def
        read_QUICPacketNumberLen_def pn_loop.simps)

section \<open>protect followed by unprotect\<close>

text \<open>
  C9. The claim: protect followed by unprotect restores the header byte and the
  packet-number bytes. The code at a 44-byte Handshake packet with a one-byte packet
  number \<open>0x2A\<close> at offset 7 and keys installed: protect receives and returns
  packet-number bytes only (\<open>0x28\<close>), so byte 0 goes on the wire as it is; unprotect XORs
  byte 0 with \<open>mask[0] AND 0x0f\<close> and returns \<open>0xEE\<close> where the packet had \<open>0xE0\<close>.
\<close>

theorem protect_then_unprotect_changes_header_byte:
  "protect hs_all_keys scenario_crypto [] 0 [0x2A] 1
      (take 16 (drop 11 ([0xE0, 0, 0, 0, 1, 0, 0x24, 0x2A] @ replicate 36 0x07))) KP_HANDSHAKE
     = (True, [0x28], 1, [ENCRYPT_PN])
   \<and> unprotect (layout_parser 1 HANDSHAKE KP_HANDSHAKE 0 0 0 0 1) hs_all_keys scenario_crypto 0
       (place_on_wire ([0xE0, 0, 0, 0, 1, 0, 0x24, 0x2A] @ replicate 36 0x07) 7 [0x28]) 44
     = Inr (True, [0xEE, 0, 0, 0, 1, 0, 0x24, 0x2A] @ replicate 36 0x07, [GENERATE_MASK])"
  by (simp add: protect_def place_on_wire_def unprotect_def unprotect_priv_def
        calc_sample_offset_def layout_parser_def hs_all_keys_def test_km_def scenario_crypto_def
        spec_crypto_def scenario_mask_def read_QUICPacketNumberLen_def pn_loop.simps
        replicate_update_same)

end
